theory Spec2Isabelle
  imports Complex_Main "HOL-Library.Sublist"
begin

section \<open>Python values\<close>

text \<open>
  The values that reach the wrapper come out of \<^verbatim>\<open>json.loads\<close>: None, booleans, unbounded
  integers, floats, strings, lists and dictionaries keyed by strings. A Python float is
  either a finite number, one of the two infinities, or NaN (\<^verbatim>\<open>json.loads\<close> accepts the
  literals NaN, Infinity and -Infinity, and \<^verbatim>\<open>float('nan')\<close> parses). Finite floats are
  embedded in the reals: comparisons are exact, the conversion of an integer rounds to the
  nearest double, and the rounding of the result of a subtraction or division is left out.
\<close>

datatype pyfloat = Fin real | PInf | NInf | NaN

datatype pyval =
    PNone
  | PBool bool
  | PInt int
  | PFloat pyfloat
  | PStr string
  | PList "pyval list"
  | PDict "(string \<times> pyval) list"

text \<open>The builtin exceptions that the conversions \<^verbatim>\<open>float(x)\<close> and \<^verbatim>\<open>int(x)\<close> raise.\<close>

datatype py_error = TypeError | ValueError | OverflowError

text \<open>\<^verbatim>\<open>a < b\<close> on floats: every comparison with NaN is false.\<close>

fun fl_lt :: "pyfloat \<Rightarrow> pyfloat \<Rightarrow> bool" where
  "fl_lt NaN b = False"
| "fl_lt a NaN = False"
| "fl_lt (Fin x) (Fin y) = (x < y)"
| "fl_lt (Fin x) PInf = True"
| "fl_lt (Fin x) NInf = False"
| "fl_lt PInf b = False"
| "fl_lt NInf NInf = False"
| "fl_lt NInf b = True"

text \<open>\<^verbatim>\<open>a <= b\<close> on floats.\<close>

fun fl_le :: "pyfloat \<Rightarrow> pyfloat \<Rightarrow> bool" where
  "fl_le NaN b = False"
| "fl_le a NaN = False"
| "fl_le (Fin x) (Fin y) = (x \<le> y)"
| "fl_le (Fin x) PInf = True"
| "fl_le (Fin x) NInf = False"
| "fl_le PInf PInf = True"
| "fl_le PInf b = False"
| "fl_le NInf b = True"

text \<open>\<^verbatim>\<open>a - b\<close> on floats.\<close>

fun fl_sub :: "pyfloat \<Rightarrow> pyfloat \<Rightarrow> pyfloat" where
  "fl_sub NaN b = NaN"
| "fl_sub a NaN = NaN"
| "fl_sub (Fin x) (Fin y) = Fin (x - y)"
| "fl_sub (Fin x) PInf = NInf"
| "fl_sub (Fin x) NInf = PInf"
| "fl_sub PInf PInf = NaN"
| "fl_sub PInf b = PInf"
| "fl_sub NInf NInf = NaN"
| "fl_sub NInf b = NInf"

text \<open>\<^verbatim>\<open>a / c\<close> for a finite constant \<open>c > 0\<close> (the source divides by 100.0 and by 10.0).\<close>

fun fl_div_const :: "pyfloat \<Rightarrow> real \<Rightarrow> pyfloat" where
  "fl_div_const (Fin x) c = Fin (x / c)"
| "fl_div_const PInf c = PInf"
| "fl_div_const NInf c = NInf"
| "fl_div_const NaN c = NaN"

text \<open>
  The builtins \<^verbatim>\<open>min(a, b)\<close> and \<^verbatim>\<open>max(a, b)\<close>: the first argument is kept unless the second
  is strictly smaller (larger), so a NaN in second place is never chosen.
\<close>

definition py_min :: "pyfloat \<Rightarrow> pyfloat \<Rightarrow> pyfloat" where
  "py_min a b = (if fl_lt b a then b else a)"

definition py_max :: "pyfloat \<Rightarrow> pyfloat \<Rightarrow> pyfloat" where
  "py_max a b = (if fl_lt a b then b else a)"

text \<open>Truthiness, as \<^verbatim>\<open>if x:\<close> and \<^verbatim>\<open>x and y\<close> test it.\<close>

definition float_truthy :: "pyfloat \<Rightarrow> bool" where
  "float_truthy f = (f \<noteq> Fin 0)"

fun truthy :: "pyval \<Rightarrow> bool" where
  "truthy PNone = False"
| "truthy (PBool b) = b"
| "truthy (PInt i) = (i \<noteq> 0)"
| "truthy (PFloat f) = float_truthy f"
| "truthy (PStr s) = (s \<noteq> [])"
| "truthy (PList xs) = (xs \<noteq> [])"
| "truthy (PDict kvs) = (kvs \<noteq> [])"

text \<open>
  The double nearest to an integer, as \<^verbatim>\<open>float(i)\<close> computes it: an integer of at most 53
  bits is kept; a longer one is cut to its 53 leading bits and rounded half to even on the
  bits cut off. \<open>bit_length\<close> is \<^verbatim>\<open>int.bit_length\<close>.
\<close>

fun bit_length :: "nat \<Rightarrow> nat" where
  "bit_length n = (if n = 0 then 0 else Suc (bit_length (n div 2)))"

declare bit_length.simps [simp del]

definition round_to_double :: "int \<Rightarrow> int" where
  "round_to_double i =
     (if \<bar>i\<bar> < 2 ^ 53 then i
      else
        let shift = bit_length (nat \<bar>i\<bar>) - 53;
            q = \<bar>i\<bar> div 2 ^ shift;
            r = \<bar>i\<bar> mod 2 ^ shift;
            half = 2 ^ (shift - 1);
            m = (if half < r \<or> (r = half \<and> odd q) then q + 1 else q)
        in sgn i * (m * 2 ^ shift))"

text \<open>
  \<^verbatim>\<open>float(x)\<close>. An integer converts unless it rounds to a double beyond the largest finite
  one, which is the case from \<open>2^1024 - 2^970\<close> on; then CPython raises OverflowError
  ("int too large to convert to float"). None, lists and dictionaries raise TypeError. What
  a string parses to is the builtin's business: \<open>sf\<close> is Python's string-to-float parser,
  \<open>None\<close> where it raises ValueError.
\<close>

definition float_overflow_bound :: int where
  "float_overflow_bound = 2 ^ 1024 - 2 ^ 970"

fun py_float :: "(string \<Rightarrow> pyfloat option) \<Rightarrow> pyval \<Rightarrow> py_error + pyfloat" where
  "py_float sf PNone = Inl TypeError"
| "py_float sf (PBool b) = Inr (Fin (if b then 1 else 0))"
| "py_float sf (PInt i) =
     (if float_overflow_bound \<le> \<bar>i\<bar> then Inl OverflowError
      else Inr (Fin (of_int (round_to_double i))))"
| "py_float sf (PFloat f) = Inr f"
| "py_float sf (PStr s) = (case sf s of None \<Rightarrow> Inl ValueError | Some f \<Rightarrow> Inr f)"
| "py_float sf (PList xs) = Inl TypeError"
| "py_float sf (PDict kvs) = Inl TypeError"

text \<open>
  \<^verbatim>\<open>int(x)\<close>. A finite float is truncated towards zero, NaN raises ValueError and an
  infinity OverflowError; \<open>si\<close> is Python's string-to-int parser.
\<close>

fun py_int :: "(string \<Rightarrow> int option) \<Rightarrow> pyval \<Rightarrow> py_error + int" where
  "py_int si PNone = Inl TypeError"
| "py_int si (PBool b) = Inr (if b then 1 else 0)"
| "py_int si (PInt i) = Inr i"
| "py_int si (PFloat (Fin x)) = Inr (if 0 \<le> x then \<lfloor>x\<rfloor> else \<lceil>x\<rceil>)"
| "py_int si (PFloat NaN) = Inl ValueError"
| "py_int si (PFloat PInf) = Inl OverflowError"
| "py_int si (PFloat NInf) = Inl OverflowError"
| "py_int si (PStr s) = (case si s of None \<Rightarrow> Inl ValueError | Some i \<Rightarrow> Inr i)"
| "py_int si (PList xs) = Inl TypeError"
| "py_int si (PDict kvs) = Inl TypeError"

text \<open>\<^verbatim>\<open>d.get(k, default)\<close> and \<^verbatim>\<open>d.get(k)\<close> on a dictionary.\<close>

definition dict_get :: "(string \<times> pyval) list \<Rightarrow> string \<Rightarrow> pyval \<Rightarrow> pyval" where
  "dict_get d k dflt = (case map_of d k of None \<Rightarrow> dflt | Some v \<Rightarrow> v)"

text \<open>Sequencing of a computation that may raise.\<close>

definition bind_res :: "'e + 'a \<Rightarrow> ('a \<Rightarrow> 'e + 'b) \<Rightarrow> 'e + 'b" where
  "bind_res m f = (case m of Inl e \<Rightarrow> Inl e | Inr x \<Rightarrow> f x)"

section \<open>Enumerations\<close>

datatype Chain = ETHEREUM | BINANCE_SMART_CHAIN | BASE | SOLANA | TRON

fun Chain_value :: "Chain \<Rightarrow> string" where
  "Chain_value ETHEREUM = ''eth''"
| "Chain_value BINANCE_SMART_CHAIN = ''bsc''"
| "Chain_value BASE = ''base''"
| "Chain_value SOLANA = ''sol''"
| "Chain_value TRON = ''tron''"

datatype TimePeriod = ONE_MINUTE | FIVE_MINUTES | ONE_HOUR | SIX_HOURS | TWENTY_FOUR_HOURS

fun TimePeriod_value :: "TimePeriod \<Rightarrow> string" where
  "TimePeriod_value ONE_MINUTE = ''1m''"
| "TimePeriod_value FIVE_MINUTES = ''5m''"
| "TimePeriod_value ONE_HOUR = ''1h''"
| "TimePeriod_value SIX_HOURS = ''6h''"
| "TimePeriod_value TWENTY_FOUR_HOURS = ''24h''"

datatype SortCriteria =
    OPEN_TIMESTAMP | LIQUIDITY | MARKETCAP | BLUECHIP_OWNER_PERCENTAGE | HOLDER_COUNT
  | SMARTMONEY | SWAPS | VOLUME | PRICE | CHANGE_1M | CHANGE_5M | CHANGE_1H

fun SortCriteria_value :: "SortCriteria \<Rightarrow> string" where
  "SortCriteria_value OPEN_TIMESTAMP = ''open_timestamp''"
| "SortCriteria_value LIQUIDITY = ''liquidity''"
| "SortCriteria_value MARKETCAP = ''marketcap''"
| "SortCriteria_value BLUECHIP_OWNER_PERCENTAGE = ''bluechip_owner_percentage''"
| "SortCriteria_value HOLDER_COUNT = ''holder_count''"
| "SortCriteria_value SMARTMONEY = ''smartmoney''"
| "SortCriteria_value SWAPS = ''swaps''"
| "SortCriteria_value VOLUME = ''volume''"
| "SortCriteria_value PRICE = ''price''"
| "SortCriteria_value CHANGE_1M = ''change1m''"
| "SortCriteria_value CHANGE_5M = ''change5m''"
| "SortCriteria_value CHANGE_1H = ''change1h''"

datatype SortDirection = ASCENDING | DESCENDING

fun SortDirection_value :: "SortDirection \<Rightarrow> string" where
  "SortDirection_value ASCENDING = ''asc''"
| "SortDirection_value DESCENDING = ''desc''"

section \<open>The Token data class\<close>

text \<open>
  The fields that \<^verbatim>\<open>from_dict\<close> passes through \<^verbatim>\<open>float\<close> or \<^verbatim>\<open>int\<close> hold a float or an
  integer; the others hold whatever value the mapping had, since the data class does not
  check its annotations.
\<close>

record Token =
  id_t :: pyval
  chain_t :: pyval
  address :: pyval
  symbol :: pyval
  price :: pyfloat
  volume :: pyfloat
  liquidity :: pyfloat
  market_cap :: pyfloat
  holder_count :: int
  swaps :: int
  price_change_percent :: pyfloat
  price_change_percent1m :: pyfloat
  price_change_percent5m :: pyfloat
  price_change_percent1h :: pyfloat
  smart_buy_24h :: int
  smart_sell_24h :: int
  is_honeypot :: int
  is_open_source :: int
  renounced :: int
  bluechip_owner_percentage :: pyfloat
  logo :: pyval
  buy_tax :: pyval
  sell_tax :: pyval
  total_supply :: pyval
  buys :: pyval
  sells :: pyval
  sniper_count :: pyval
  lock_info :: pyval

text \<open>
  \<^verbatim>\<open>Token.from_dict\<close>. The keyword arguments are evaluated in the order written, so the
  first conversion that raises decides the exception.
\<close>

definition from_dict ::
  "(string \<Rightarrow> pyfloat option) \<Rightarrow> (string \<Rightarrow> int option) \<Rightarrow> (string \<times> pyval) list
    \<Rightarrow> py_error + Token" where
  "from_dict sf si data =
     bind_res (py_float sf (dict_get data ''price'' (PInt 0))) (\<lambda>v_price.
     bind_res (py_float sf (dict_get data ''volume'' (PInt 0))) (\<lambda>v_volume.
     bind_res (py_float sf (dict_get data ''liquidity'' (PInt 0))) (\<lambda>v_liquidity.
     bind_res (py_float sf (dict_get data ''market_cap'' (PInt 0))) (\<lambda>v_market_cap.
     bind_res (py_int si (dict_get data ''holder_count'' (PInt 0))) (\<lambda>v_holder_count.
     bind_res (py_int si (dict_get data ''swaps'' (PInt 0))) (\<lambda>v_swaps.
     bind_res (py_float sf (dict_get data ''price_change_percent'' (PInt 0))) (\<lambda>v_pcp.
     bind_res (py_float sf (dict_get data ''price_change_percent1m'' (PInt 0))) (\<lambda>v_pcp1m.
     bind_res (py_float sf (dict_get data ''price_change_percent5m'' (PInt 0))) (\<lambda>v_pcp5m.
     bind_res (py_float sf (dict_get data ''price_change_percent1h'' (PInt 0))) (\<lambda>v_pcp1h.
     bind_res (py_int si (dict_get data ''smart_buy_24h'' (PInt 0))) (\<lambda>v_smart_buy.
     bind_res (py_int si (dict_get data ''smart_sell_24h'' (PInt 0))) (\<lambda>v_smart_sell.
     bind_res (py_int si (dict_get data ''is_honeypot'' (PInt 0))) (\<lambda>v_is_honeypot.
     bind_res (py_int si (dict_get data ''is_open_source'' (PInt 0))) (\<lambda>v_is_open_source.
     bind_res (py_int si (dict_get data ''renounced'' (PInt 0))) (\<lambda>v_renounced.
     bind_res (py_float sf (dict_get data ''bluechip_owner_percentage'' (PInt 0))) (\<lambda>v_bluechip.
     Inr \<lparr> id_t = dict_get data ''id'' (PInt 0),
           chain_t = dict_get data ''chain'' (PStr ''''),
           address = dict_get data ''address'' (PStr ''''),
           symbol = dict_get data ''symbol'' (PStr ''''),
           price = v_price,
           volume = v_volume,
           liquidity = v_liquidity,
           market_cap = v_market_cap,
           holder_count = v_holder_count,
           swaps = v_swaps,
           price_change_percent = v_pcp,
           price_change_percent1m = v_pcp1m,
           price_change_percent5m = v_pcp5m,
           price_change_percent1h = v_pcp1h,
           smart_buy_24h = v_smart_buy,
           smart_sell_24h = v_smart_sell,
           is_honeypot = v_is_honeypot,
           is_open_source = v_is_open_source,
           renounced = v_renounced,
           bluechip_owner_percentage = v_bluechip,
           logo = dict_get data ''logo'' PNone,
           buy_tax = dict_get data ''buy_tax'' PNone,
           sell_tax = dict_get data ''sell_tax'' PNone,
           total_supply = dict_get data ''total_supply'' PNone,
           buys = dict_get data ''buys'' PNone,
           sells = dict_get data ''sells'' PNone,
           sniper_count = dict_get data ''sniper_count'' PNone,
           lock_info = dict_get data ''lockInfo'' PNone \<rparr>))))))))))))))))"

section \<open>Query parameters\<close>

record QueryParameters =
  chain_q :: Chain
  time_period :: TimePeriod
  criteria :: SortCriteria
  direction :: SortDirection
  include_not_honeypot :: bool
  include_verified :: bool
  include_renounced :: bool

text \<open>
  \<^verbatim>\<open>QueryParameters.to_url_params\<close>: the list starts with two entries and each of the three
  \<^verbatim>\<open>if\<close> statements appends to it.
\<close>

definition to_url_params :: "QueryParameters \<Rightarrow> (string \<times> string) list" where
  "to_url_params q =
     (let params = [(''orderby'', SortCriteria_value (criteria q)),
                    (''direction'', SortDirection_value (direction q))];
          params = (if include_not_honeypot q
                    then params @ [(''filters[]'', ''not_honeypot'')] else params);
          params = (if include_verified q
                    then params @ [(''filters[]'', ''verified'')] else params);
          params = (if include_renounced q
                    then params @ [(''filters[]'', ''renounced'')] else params)
      in params)"

section \<open>Filter criteria\<close>

text \<open>
  The thresholds are \<^verbatim>\<open>Optional[float]\<close> (an integer threshold compares with a float by its
  exact value, so it is the same finite number here); \<^verbatim>\<open>min_holder_count\<close> is an optional
  integer.
\<close>

record FilterCriteria =
  min_volume :: "pyfloat option"
  max_volume :: "pyfloat option"
  min_market_cap :: "pyfloat option"
  max_market_cap :: "pyfloat option"
  min_liquidity :: "pyfloat option"
  max_liquidity :: "pyfloat option"
  min_holder_count :: "int option"
  min_price_change :: "pyfloat option"
  max_price_change :: "pyfloat option"
  min_age_days :: "pyfloat option"
  exclude_honeypots :: bool

text \<open>
  A guard \<^verbatim>\<open>if self.min_x and token.x < self.min_x\<close>: the threshold is tested for truth
  first, so None and zero both switch the comparison off.
\<close>

definition below_min :: "pyfloat option \<Rightarrow> pyfloat \<Rightarrow> bool" where
  "below_min m x = (case m of None \<Rightarrow> False | Some a \<Rightarrow> float_truthy a \<and> fl_lt x a)"

definition above_max :: "pyfloat option \<Rightarrow> pyfloat \<Rightarrow> bool" where
  "above_max m x = (case m of None \<Rightarrow> False | Some a \<Rightarrow> float_truthy a \<and> fl_lt a x)"

definition below_min_int :: "int option \<Rightarrow> int \<Rightarrow> bool" where
  "below_min_int m x = (case m of None \<Rightarrow> False | Some a \<Rightarrow> a \<noteq> 0 \<and> x < a)"

text \<open>\<^verbatim>\<open>FilterCriteria.matches\<close>; the \<^verbatim>\<open>min_age_days\<close> branch is a placeholder that does nothing.\<close>

definition matches :: "FilterCriteria \<Rightarrow> Token \<Rightarrow> bool" where
  "matches c token =
     (if exclude_honeypots c \<and> is_honeypot token \<noteq> 0 then False
      else if below_min (min_volume c) (volume token) then False
      else if above_max (max_volume c) (volume token) then False
      else if below_min (min_market_cap c) (market_cap token) then False
      else if above_max (max_market_cap c) (market_cap token) then False
      else if below_min (min_liquidity c) (liquidity token) then False
      else if above_max (max_liquidity c) (liquidity token) then False
      else if below_min_int (min_holder_count c) (holder_count token) then False
      else if below_min (min_price_change c) (price_change_percent token) then False
      else if above_max (max_price_change c) (price_change_percent token) then False
      else True)"

section \<open>Filters\<close>

text \<open>
  The slice \<^verbatim>\<open>xs[:n]\<close>: a negative \<open>n\<close> counts from the end, and a bound outside the list
  is clipped.
\<close>

definition slice_to :: "'a list \<Rightarrow> int \<Rightarrow> 'a list" where
  "slice_to xs n =
     (if 0 \<le> n then take (nat n) xs else take (length xs - nat (- n)) xs)"

datatype TokenFilter =
    BaseTokenFilter
  | CriteriaFilter FilterCriteria
  | TopNFilter int
  | CompositeFilter "TokenFilter list"

text \<open>
  The \<^verbatim>\<open>filter\<close> method of each class; \<open>composite_loop\<close> is the \<^verbatim>\<open>for\<close> loop of
  \<^verbatim>\<open>CompositeFilter.filter\<close>, its second argument the variable \<^verbatim>\<open>result\<close>.
\<close>

fun filter_tokens :: "TokenFilter \<Rightarrow> Token list \<Rightarrow> Token list"
  and composite_loop :: "TokenFilter list \<Rightarrow> Token list \<Rightarrow> Token list" where
  "filter_tokens BaseTokenFilter tokens = tokens"
| "filter_tokens (CriteriaFilter c) tokens = [token \<leftarrow> tokens. matches c token]"
| "filter_tokens (TopNFilter n) tokens = slice_to tokens n"
| "filter_tokens (CompositeFilter filters) tokens = composite_loop filters tokens"
| "composite_loop [] result = result"
| "composite_loop (filter_instance # rest) result =
     composite_loop rest (filter_tokens filter_instance result)"

section \<open>Exceptions\<close>

text \<open>
  What can be raised inside \<^verbatim>\<open>make_request\<close>: the wrapper's \<open>GMGNAPIError status message\<close>,
  or any other exception, raised by the TLS session or by the JSON decoder, with \<open>text\<close>
  what \<^verbatim>\<open>str(e)\<close> gives.
\<close>

datatype request_exn =
    GMGNAPIError int string
  | OtherException string

text \<open>What a method of \<^verbatim>\<open>GMGNTokenAPI\<close> can raise.\<close>

datatype api_exn =
    RequestFailed request_exn
  | GMGNParsingError string
  | NameError string
  | SliceTypeError

section \<open>The HTTP client\<close>

record GMGNConfig =
  base_url :: string
  timeout :: int
  max_retries :: int
  verbose :: bool
  user_agents :: "string list"

definition create_default :: GMGNConfig where
  "create_default =
     \<lparr> base_url = ''https://gmgn.ai/defi/quotation/v1/rank'',
       timeout = 60,
       max_retries = 3,
       verbose = False,
       user_agents =
         [''Mozilla/5.0 (Windows NT 10.0; Win64; x64; rv:82.0) Gecko/20100101 Firefox/82.0'',
          ''Mozilla/5.0 (Windows NT 10.0; Win64; x64) AppleWebKit/537.36 (KHTML, like Gecko) Chrome/91.0.4472.124 Safari/537.36'',
          ''Mozilla/5.0 (Macintosh; Intel Mac OS X 10_15_7) AppleWebKit/537.36 (KHTML, like Gecko) Chrome/91.0.4472.124 Safari/537.36''] \<rparr>"

text \<open>
  The client's state. The browser identifier, the TLS session and the user-agent are drawn
  at random by \<^verbatim>\<open>_initialize_session\<close>; \<open>session_generation\<close> counts how often that has
  happened since the client was built and stands for the identity in use. \<open>requests_sent\<close>
  counts the calls of \<^verbatim>\<open>session.get\<close>. Building a session sends nothing and is taken to
  succeed: \<^verbatim>\<open>_initialize_session\<close> catches a failure of the user-agent generator itself.
\<close>

record GMGNClient =
  config :: GMGNConfig
  session_generation :: nat
  requests_sent :: nat

text \<open>
  What \<^verbatim>\<open>session.get\<close> gives: a response, whose \<^verbatim>\<open>json()\<close> either decodes or raises, or an
  exception of the transport. The network is a function of the URL, the parameters and the
  client's state at the call.
\<close>

record response =
  status_code :: int
  text_r :: string
  json :: "string + pyval"

datatype outcome = Responds response | Raises string

type_synonym network = "string \<Rightarrow> (string \<times> string) list \<Rightarrow> GMGNClient \<Rightarrow> outcome"

definition refresh_session :: "GMGNClient \<Rightarrow> GMGNClient" where
  "refresh_session cl = cl\<lparr>session_generation := Suc (session_generation cl)\<rparr>"

text \<open>
  The body of the \<^verbatim>\<open>try\<close> in \<^verbatim>\<open>make_request\<close>, once \<^verbatim>\<open>session.get\<close> has come back: \<open>Inr\<close> is
  the \<^verbatim>\<open>return\<close>, \<open>Inl\<close> the exception that the \<^verbatim>\<open>except\<close> clause catches.
\<close>

definition try_request :: "outcome \<Rightarrow> request_exn + pyval" where
  "try_request out =
     (case out of
        Raises msg \<Rightarrow> Inl (OtherException msg)
      | Responds r \<Rightarrow>
          if status_code r = 200 then
            (case json r of Inl msg \<Rightarrow> Inl (OtherException msg) | Inr v \<Rightarrow> Inr v)
          else if status_code r \<in> {403, 429, 503} then
            Inl (GMGNAPIError (status_code r) ''Cloudflare block detected'')
          else Inl (GMGNAPIError (status_code r) (text_r r)))"

text \<open>
  The \<^verbatim>\<open>for attempt in range(max_retries)\<close> loop: the list holds the attempts still to
  run, \<open>last_exception\<close> is the variable of that name. \<open>Inr\<close> is the early \<^verbatim>\<open>return\<close>,
  \<open>Inl\<close> the value of \<^verbatim>\<open>last_exception\<close> when the loop runs out.
\<close>

fun attempt_loop ::
  "network \<Rightarrow> string \<Rightarrow> (string \<times> string) list \<Rightarrow> int list \<Rightarrow> request_exn option \<Rightarrow> GMGNClient
    \<Rightarrow> (request_exn option + pyval) \<times> GMGNClient" where
  "attempt_loop net url params [] last_exception cl = (Inl last_exception, cl)"
| "attempt_loop net url params (attempt # rest) last_exception cl =
     (let sent = cl\<lparr>requests_sent := Suc (requests_sent cl)\<rparr> in
      case try_request (net url params cl) of
        Inr v \<Rightarrow> (Inr v, sent)
      | Inl e \<Rightarrow>
          attempt_loop net url params rest (Some e)
            (if attempt < max_retries (config cl) - 1 then refresh_session sent else sent))"

text \<open>\<^verbatim>\<open>range(n)\<close> for an integer \<open>n\<close>; empty when \<open>n \<le> 0\<close>.\<close>

definition py_range :: "int \<Rightarrow> int list" where
  "py_range n = map int [0..<nat n]"

text \<open>What \<^verbatim>\<open>make_request\<close> raises after the loop, from \<^verbatim>\<open>last_exception\<close>.\<close>

fun raise_after_loop :: "request_exn option \<Rightarrow> request_exn" where
  "raise_after_loop (Some (GMGNAPIError status msg)) = GMGNAPIError status msg"
| "raise_after_loop (Some (OtherException msg)) =
     GMGNAPIError 500 (''Request failed: '' @ msg)"
| "raise_after_loop None = GMGNAPIError 500 ''Request failed: None''"

definition make_request ::
  "network \<Rightarrow> string \<Rightarrow> (string \<times> string) list \<Rightarrow> GMGNClient
    \<Rightarrow> (request_exn + pyval) \<times> GMGNClient" where
  "make_request net url params cl =
     (case attempt_loop net url params (py_range (max_retries (config cl))) None cl of
        (Inr v, cl') \<Rightarrow> (Inr v, cl')
      | (Inl last_exception, cl') \<Rightarrow> (Inl (raise_after_loop last_exception), cl'))"

section \<open>Parsing a response\<close>

text \<open>\<^verbatim>\<open>type(x)\<close> as an f-string prints it.\<close>

fun type_repr :: "pyval \<Rightarrow> string" where
  "type_repr PNone = ''<class 'NoneType'>''"
| "type_repr (PBool b) = ''<class 'bool'>''"
| "type_repr (PInt i) = ''<class 'int'>''"
| "type_repr (PFloat f) = ''<class 'float'>''"
| "type_repr (PStr s) = ''<class 'str'>''"
| "type_repr (PList xs) = ''<class 'list'>''"
| "type_repr (PDict kvs) = ''<class 'dict'>''"

text \<open>
  The \<^verbatim>\<open>for item in rank_data\<close> loop of \<^verbatim>\<open>parse_response\<close>; the last argument is the
  list \<^verbatim>\<open>tokens\<close> built so far. An item that is no dictionary is passed over; an exception
  of \<^verbatim>\<open>Token.from_dict\<close> is caught by \<^verbatim>\<open>except Exception\<close> and the loop goes on.
\<close>

fun parse_items ::
  "(string \<Rightarrow> pyfloat option) \<Rightarrow> (string \<Rightarrow> int option) \<Rightarrow> pyval list \<Rightarrow> Token list
    \<Rightarrow> Token list" where
  "parse_items sf si [] tokens = tokens"
| "parse_items sf si (item # rest) tokens =
     (case item of
        PDict d \<Rightarrow>
          (case from_dict sf si d of
             Inr token \<Rightarrow> parse_items sf si rest (tokens @ [token])
           | Inl e \<Rightarrow> parse_items sf si rest tokens)
      | _ \<Rightarrow> parse_items sf si rest tokens)"

text \<open>
  \<^verbatim>\<open>TokenDataParser.parse_response\<close>. \<open>Inl msg\<close> is \<^verbatim>\<open>GMGNParsingError(msg)\<close>. Nothing but
  a \<^verbatim>\<open>GMGNParsingError\<close> is raised inside the outer \<^verbatim>\<open>try\<close>, so its \<^verbatim>\<open>except\<close> clause only
  re-raises.
\<close>

definition parse_response ::
  "(string \<Rightarrow> pyfloat option) \<Rightarrow> (string \<Rightarrow> int option) \<Rightarrow> pyval \<Rightarrow> string + Token list" where
  "parse_response sf si response =
     (case response of
        PDict r \<Rightarrow>
          (case map_of r ''data'' of
             None \<Rightarrow> Inl ''No 'data' key in response''
           | Some data \<Rightarrow>
               (case data of
                  PDict d \<Rightarrow>
                    (case map_of d ''rank'' of
                       None \<Rightarrow> Inl ''Invalid data structure''
                     | Some rank_data \<Rightarrow>
                         (case rank_data of
                            PList items \<Rightarrow> Inr (parse_items sf si items [])
                          | _ \<Rightarrow> Inl ''Rank data is not a list''))
                | _ \<Rightarrow> Inl ''Invalid data structure''))
      | _ \<Rightarrow> Inl (''Expected dict, got '' @ type_repr response))"

section \<open>The API class\<close>

text \<open>\<^verbatim>\<open>GMGNTokenAPI.get_tokens\<close> and \<^verbatim>\<open>get_tokens_with_filter\<close>.\<close>

definition get_tokens ::
  "network \<Rightarrow> (string \<Rightarrow> pyfloat option) \<Rightarrow> (string \<Rightarrow> int option) \<Rightarrow> QueryParameters
    \<Rightarrow> GMGNClient \<Rightarrow> (api_exn + Token list) \<times> GMGNClient" where
  "get_tokens net sf si params cl =
     (let url = base_url (config cl) @ ''/'' @ Chain_value (chain_q params) @ ''/swaps/''
                  @ TimePeriod_value (time_period params);
          url_params = to_url_params params
      in case make_request net url url_params cl of
           (Inl e, cl') \<Rightarrow> (Inl (RequestFailed e), cl')
         | (Inr response, cl') \<Rightarrow>
             (case parse_response sf si response of
                Inl msg \<Rightarrow> (Inl (GMGNParsingError msg), cl')
              | Inr tokens \<Rightarrow> (Inr tokens, cl')))"

definition get_tokens_with_filter ::
  "network \<Rightarrow> (string \<Rightarrow> pyfloat option) \<Rightarrow> (string \<Rightarrow> int option) \<Rightarrow> QueryParameters
    \<Rightarrow> TokenFilter \<Rightarrow> GMGNClient \<Rightarrow> (api_exn + Token list) \<times> GMGNClient" where
  "get_tokens_with_filter net sf si params filter_instance cl =
     (case get_tokens net sf si params cl of
        (Inl e, cl') \<Rightarrow> (Inl e, cl')
      | (Inr tokens, cl') \<Rightarrow> (Inr (filter_tokens filter_instance tokens), cl'))"

text \<open>
  The names bound at the top level of the module \<^verbatim>\<open>gmgn_api\<close>: its imports, classes and
  functions. A name that a method reads without assigning it is looked up here (Python's
  builtins hold no name \<^verbatim>\<open>limit\<close>).
\<close>

datatype binding = Module | Class | Function

definition module_globals :: "(string \<times> binding) list" where
  "module_globals =
     [(''json'', Module), (''random'', Module), (''logging'', Module),
      (''Optional'', Class), (''List'', Class), (''Dict'', Class), (''Any'', Class),
      (''Union'', Class), (''Protocol'', Class), (''Callable'', Class),
      (''Enum'', Class), (''dataclass'', Function), (''field'', Function),
      (''ABC'', Class), (''abstractmethod'', Function),
      (''tls_client'', Module), (''UserAgent'', Class), (''rugcheck'', Class),
      (''Chain'', Class), (''TimePeriod'', Class), (''SortCriteria'', Class),
      (''SortDirection'', Class), (''GMGNError'', Class), (''GMGNAPIError'', Class),
      (''GMGNParsingError'', Class), (''GMGNConfigError'', Class), (''Token'', Class),
      (''QueryParameters'', Class), (''FilterCriteria'', Class), (''GMGNConfig'', Class),
      (''TokenFormatter'', Class), (''TokenFilter'', Class), (''GMGNClient'', Class),
      (''TokenDataParser'', Class), (''BaseTokenFilter'', Class), (''CriteriaFilter'', Class),
      (''TopNFilter'', Class), (''CompositeFilter'', Class), (''GeneralFormatter'', Class),
      (''VolumeFormatter'', Class), (''MarketCapFormatter'', Class),
      (''GainersFormatter'', Class), (''SmallCapFormatter'', Class),
      (''RugcheckFormatter'', Class), (''GMGNTokenAPI'', Class),
      (''create_api'', Function), (''create_volume_query'', Function),
      (''create_gainers_query'', Function), (''create_rugcheck_api'', Function),
      (''get_safe_tokens_with_rugcheck'', Function), (''main'', Function)]"

text \<open>
  \<^verbatim>\<open>GMGNTokenAPI.get_top_gainers\<close>. Its local names are \<^verbatim>\<open>self\<close>, \<^verbatim>\<open>chain\<close>, \<^verbatim>\<open>time_period\<close>,
  \<^verbatim>\<open>criteria\<close>, \<^verbatim>\<open>params\<close> and \<^verbatim>\<open>filter_instance\<close>, so \<^verbatim>\<open>limit\<close> in \<^verbatim>\<open>TopNFilter(limit)\<close> is a
  global name. Were it bound to a module, class or function, the tokens would be fetched
  and the slice \<^verbatim>\<open>tokens[:limit]\<close> would raise a TypeError.
\<close>

definition get_top_gainers ::
  "network \<Rightarrow> (string \<Rightarrow> pyfloat option) \<Rightarrow> (string \<Rightarrow> int option) \<Rightarrow> Chain \<Rightarrow> TimePeriod
    \<Rightarrow> GMGNClient \<Rightarrow> (api_exn + Token list) \<times> GMGNClient" where
  "get_top_gainers net sf si chain tp cl =
     (let criteria =
            (if tp = ONE_MINUTE then CHANGE_1M
             else if tp = FIVE_MINUTES then CHANGE_5M
             else if tp = ONE_HOUR then CHANGE_1H
             else CHANGE_1H);
          params = \<lparr> chain_q = chain, time_period = tp, criteria = criteria,
                     direction = DESCENDING, include_not_honeypot = True,
                     include_verified = False, include_renounced = False \<rparr>
      in case map_of module_globals ''limit'' of
           None \<Rightarrow> (Inl (NameError ''limit''), cl)
         | Some obj \<Rightarrow>
             (case get_tokens net sf si params cl of
                (Inl e, cl') \<Rightarrow> (Inl e, cl')
              | (Inr tokens, cl') \<Rightarrow> (Inl SliceTypeError, cl')))"

text \<open>
  \<^verbatim>\<open>GMGNTokenAPI._extract_risk_score\<close>. \<open>risk_score_body\<close> is the body of the \<^verbatim>\<open>try\<close>;
  the \<^verbatim>\<open>except (ValueError, TypeError)\<close> clause turns those two exceptions into 0.5 and lets
  any other pass.
\<close>

definition risk_score_body ::
  "(string \<Rightarrow> pyfloat option) \<Rightarrow> (string \<times> pyval) list \<Rightarrow> py_error + pyfloat" where
  "risk_score_body sf rugcheck_result =
     (if map_of rugcheck_result ''score_normalised'' \<noteq> None
         \<and> map_of rugcheck_result ''score_normalised'' \<noteq> Some PNone then
        bind_res (py_float sf (dict_get rugcheck_result ''score_normalised'' PNone)) (\<lambda>score.
        Inr (py_max (Fin 0) (py_min (Fin 1) (fl_sub (Fin 1) score))))
      else if map_of rugcheck_result ''score'' \<noteq> None
         \<and> map_of rugcheck_result ''score'' \<noteq> Some PNone then
        bind_res (py_float sf (dict_get rugcheck_result ''score'' PNone)) (\<lambda>score.
        let normalized = fl_div_const score 100 in
        Inr (py_max (Fin 0) (py_min (Fin 1) (fl_sub (Fin 1) normalized))))
      else if truthy (dict_get rugcheck_result ''rugged'' (PBool False)) then Inr (Fin 1)
      else
        (case map_of rugcheck_result ''risks'' of
           Some (PList risks) \<Rightarrow> Inr (py_min (Fin 1) (Fin (real (length risks) / 10)))
         | _ \<Rightarrow> Inr (Fin (1 / 2))))"

definition extract_risk_score ::
  "(string \<Rightarrow> pyfloat option) \<Rightarrow> (string \<times> pyval) list \<Rightarrow> py_error + pyfloat" where
  "extract_risk_score sf rugcheck_result =
     (case risk_score_body sf rugcheck_result of
        Inr score \<Rightarrow> Inr score
      | Inl ValueError \<Rightarrow> Inr (Fin (1 / 2))
      | Inl TypeError \<Rightarrow> Inr (Fin (1 / 2))
      | Inl OverflowError \<Rightarrow> Inl OverflowError)"

section \<open>Notions used in the statements\<close>

text \<open>The keys whose values \<^verbatim>\<open>from_dict\<close> passes through \<^verbatim>\<open>float\<close> and through \<^verbatim>\<open>int\<close>.\<close>

definition float_keys :: "string list" where
  "float_keys =
     [''price'', ''volume'', ''liquidity'', ''market_cap'', ''price_change_percent'',
      ''price_change_percent1m'', ''price_change_percent5m'', ''price_change_percent1h'',
      ''bluechip_owner_percentage'']"

definition int_keys :: "string list" where
  "int_keys =
     [''holder_count'', ''swaps'', ''smart_buy_24h'', ''smart_sell_24h'', ''is_honeypot'',
      ''is_open_source'', ''renounced'']"

text \<open>
  The client's state when attempt \<open>j\<close> of \<^verbatim>\<open>make_request\<close> starts, the attempts before it
  having failed and been followed by \<^verbatim>\<open>refresh_session\<close>; and what that attempt gives.
\<close>

definition state_at :: "GMGNClient \<Rightarrow> nat \<Rightarrow> GMGNClient" where
  "state_at cl j =
     cl\<lparr>session_generation := session_generation cl + j, requests_sent := requests_sent cl + j\<rparr>"

definition attempt_result ::
  "network \<Rightarrow> string \<Rightarrow> (string \<times> string) list \<Rightarrow> GMGNClient \<Rightarrow> nat \<Rightarrow> request_exn + pyval" where
  "attempt_result net url params cl j = try_request (net url params (state_at cl j))"

text \<open>
  A threshold made stricter by a value that the guards of \<^verbatim>\<open>matches\<close> take as set: it is
  unchanged, or it is non-zero and not below (for a maximum: not above) the one it replaces.
\<close>

definition tightened_min :: "pyfloat option \<Rightarrow> pyfloat option \<Rightarrow> bool" where
  "tightened_min m m' =
     (m' = m \<or> (case m' of None \<Rightarrow> False
                | Some b \<Rightarrow> float_truthy b \<and> (case m of None \<Rightarrow> True | Some a \<Rightarrow> fl_le a b)))"

definition tightened_max :: "pyfloat option \<Rightarrow> pyfloat option \<Rightarrow> bool" where
  "tightened_max m m' =
     (m' = m \<or> (case m' of None \<Rightarrow> False
                | Some b \<Rightarrow> float_truthy b \<and> (case m of None \<Rightarrow> True | Some a \<Rightarrow> fl_le b a)))"

definition tightened_min_int :: "int option \<Rightarrow> int option \<Rightarrow> bool" where
  "tightened_min_int m m' =
     (m' = m \<or> (case m' of None \<Rightarrow> False
                | Some b \<Rightarrow> b \<noteq> 0 \<and> (case m of None \<Rightarrow> True | Some a \<Rightarrow> a \<le> b)))"

definition tightened :: "FilterCriteria \<Rightarrow> FilterCriteria \<Rightarrow> bool" where
  "tightened c c' =
     (tightened_min (min_volume c) (min_volume c')
      \<and> tightened_max (max_volume c) (max_volume c')
      \<and> tightened_min (min_market_cap c) (min_market_cap c')
      \<and> tightened_max (max_market_cap c) (max_market_cap c')
      \<and> tightened_min (min_liquidity c) (min_liquidity c')
      \<and> tightened_max (max_liquidity c) (max_liquidity c')
      \<and> tightened_min_int (min_holder_count c) (min_holder_count c')
      \<and> tightened_min (min_price_change c) (min_price_change c')
      \<and> tightened_max (max_price_change c) (max_price_change c')
      \<and> (exclude_honeypots c' \<or> \<not> exclude_honeypots c))"

section \<open>Concrete inputs\<close>

text \<open>\<^verbatim>\<open>FilterCriteria()\<close>, every field at its default.\<close>

definition default_criteria :: FilterCriteria where
  "default_criteria =
     \<lparr> min_volume = None, max_volume = None, min_market_cap = None, max_market_cap = None,
       min_liquidity = None, max_liquidity = None, min_holder_count = None,
       min_price_change = None, max_price_change = None, min_age_days = None,
       exclude_honeypots = True \<rparr>"

text \<open>The token that \<^verbatim>\<open>Token.from_dict({})\<close> builds.\<close>

definition blank_token :: Token where
  "blank_token =
     \<lparr> id_t = PInt 0, chain_t = PStr [], address = PStr [], symbol = PStr [],
       price = Fin 0, volume = Fin 0, liquidity = Fin 0, market_cap = Fin 0,
       holder_count = 0, swaps = 0, price_change_percent = Fin 0,
       price_change_percent1m = Fin 0, price_change_percent5m = Fin 0,
       price_change_percent1h = Fin 0, smart_buy_24h = 0, smart_sell_24h = 0,
       is_honeypot = 0, is_open_source = 0, renounced = 0, bluechip_owner_percentage = Fin 0,
       logo = PNone, buy_tax = PNone, sell_tax = PNone, total_supply = PNone, buys = PNone,
       sells = PNone, sniper_count = PNone, lock_info = PNone \<rparr>"

text \<open>
  A fragment of the builtin string parsers, to run the model on concrete inputs: a
  non-empty string of ASCII digits is read as a decimal number, as Python reads it. The
  fragment rejects every other string, so it is used on digit strings and on strings that
  Python rejects as well.
\<close>

fun digits_value :: "string \<Rightarrow> nat \<Rightarrow> nat option" where
  "digits_value [] acc = Some acc"
| "digits_value (c # cs) acc =
     (if 48 \<le> (of_char c :: nat) \<and> (of_char c :: nat) \<le> 57
      then digits_value cs (10 * acc + (of_char c - 48)) else None)"

definition digits_int :: "string \<Rightarrow> int option" where
  "digits_int s = (if s = [] then None else map_option int (digits_value s 0))"

definition digits_float :: "string \<Rightarrow> pyfloat option" where
  "digits_float s = map_option (\<lambda>i. Fin (of_int i)) (digits_int s)"

text \<open>Networks: one that answers every request with status 503, one whose transport times out.\<close>

definition always_blocked :: network where
  "always_blocked url params cl =
     Responds \<lparr> status_code = 503, text_r = ''Service Unavailable'', json = Inl ''no JSON'' \<rparr>"

definition always_timeout :: network where
  "always_timeout url params cl = Raises ''timed out''"

text \<open>A client fresh from its constructor.\<close>

definition new_client :: "GMGNConfig \<Rightarrow> GMGNClient" where
  "new_client cfg = \<lparr> config = cfg, session_generation = 0, requests_sent = 0 \<rparr>"

text \<open>A mapping with some keys present, each numeric one holding a value that converts.\<close>

definition sample_item :: "(string \<times> pyval) list" where
  "sample_item =
     [(''symbol'', PStr ''ABC''), (''price'', PStr ''12''), (''holder_count'', PFloat (Fin (79 / 10))),
      (''is_honeypot'', PBool True), (''logo'', PStr ''abc.png'')]"

text \<open>A mapping whose volume is a string that is no number.\<close>

definition rejected_item :: "(string \<times> pyval) list" where
  "rejected_item =
     [(''symbol'', PStr ''XYZ''), (''volume'', PStr ''abc''), (''holder_count'', PInt 3)]"

text \<open>
  A response whose rank list holds two well-formed items with a string and an item with a
  null price between them.
\<close>

definition sample_response :: pyval where
  "sample_response =
     PDict [(''code'', PInt 0),
            (''data'', PDict [(''rank'',
               PList [PDict [(''symbol'', PStr ''A''), (''volume'', PInt 5)],
                      PStr ''oops'',
                      PDict [(''symbol'', PStr ''B''), (''price'', PNone)],
                      PDict [(''symbol'', PStr ''C''), (''swaps'', PStr ''12'')]])])]"

section \<open>Query parameters: the ordered parameter list\<close>

text \<open>
  Claim C7. For every \<^verbatim>\<open>QueryParameters\<close> value, \<^verbatim>\<open>to_url_params\<close> returns the list that begins
  with \<open>(orderby, criteria)\<close> and \<open>(direction, direction)\<close>, followed by
  \<open>(filters[], not_honeypot)\<close>, \<open>(filters[], verified)\<close> and \<open>(filters[], renounced)\<close>, each
  present exactly when its flag is set, in that order and with nothing else.
\<close>

theorem to_url_params_ordered:
  "to_url_params q =
     [(''orderby'', SortCriteria_value (criteria q)),
      (''direction'', SortDirection_value (direction q))]
     @ (if include_not_honeypot q then [(''filters[]'', ''not_honeypot'')] else [])
     @ (if include_verified q then [(''filters[]'', ''verified'')] else [])
     @ (if include_renounced q then [(''filters[]'', ''renounced'')] else [])"
  by (simp add: to_url_params_def Let_def)

section \<open>Filters\<close>

lemma composite_loop_foldl:
  "composite_loop fs ts = foldl (\<lambda>result f. filter_tokens f result) ts fs"
  by (induction fs arbitrary: ts) simp_all

text \<open>
  Claim C10. \<^verbatim>\<open>CompositeFilter(fs).filter(tokens)\<close> is the result of applying the filters of
  \<open>fs\<close> in list order, each to the result of the one before, and with no filters it
  returns its input.
\<close>

theorem composite_filter_sequential:
  "filter_tokens (CompositeFilter fs) tokens
     = foldl (\<lambda>result f. filter_tokens f result) tokens fs
   \<and> filter_tokens (CompositeFilter []) tokens = tokens"
  by (simp add: composite_loop_foldl)

text \<open>
  Claim C2, as amended. \<^verbatim>\<open>TopNFilter(n).filter(tokens)\<close> is a prefix of \<open>tokens\<close> for every
  integer \<open>n\<close>. For \<open>n \<ge> 0\<close> it has \<open>min n (len tokens)\<close> elements, so never more than
  \<open>n\<close>; for \<open>n < 0\<close> the slice drops the last \<open>-n\<close> elements instead.
\<close>

theorem top_n_prefix:
  "prefix (filter_tokens (TopNFilter n) tokens) tokens
   \<and> (0 \<le> n \<longrightarrow> length (filter_tokens (TopNFilter n) tokens) = min (nat n) (length tokens)
        \<and> int (length (filter_tokens (TopNFilter n) tokens)) \<le> n)
   \<and> (n < 0 \<longrightarrow> length (filter_tokens (TopNFilter n) tokens) = length tokens - nat (- n))"
  by (auto simp: slice_to_def take_is_prefix)

theorem top_n_prefix_witness:
  "prefix (filter_tokens (TopNFilter 2)
             [blank_token\<lparr>symbol := PStr ''A''\<rparr>, blank_token\<lparr>symbol := PStr ''B''\<rparr>,
              blank_token\<lparr>symbol := PStr ''C''\<rparr>])
     [blank_token\<lparr>symbol := PStr ''A''\<rparr>, blank_token\<lparr>symbol := PStr ''B''\<rparr>,
      blank_token\<lparr>symbol := PStr ''C''\<rparr>]
   \<and> length (filter_tokens (TopNFilter 2)
               [blank_token\<lparr>symbol := PStr ''A''\<rparr>, blank_token\<lparr>symbol := PStr ''B''\<rparr>,
                blank_token\<lparr>symbol := PStr ''C''\<rparr>]) = 2"
  using top_n_prefix[of 2 "[blank_token\<lparr>symbol := PStr ''A''\<rparr>,
      blank_token\<lparr>symbol := PStr ''B''\<rparr>, blank_token\<lparr>symbol := PStr ''C''\<rparr>]"]
  by simp

text \<open>
  With \<open>n = -1\<close> and two tokens the result has one element, which is more than \<open>n\<close>.
\<close>

theorem top_n_negative_counterexample:
  "length (filter_tokens (TopNFilter (- 1)) [blank_token, blank_token]) = 1
   \<and> \<not> int (length (filter_tokens (TopNFilter (- 1)) [blank_token, blank_token])) \<le> - 1"
  by (simp add: slice_to_def)

text \<open>
  Claim C1. The claim is that a stricter threshold never lets more tokens through. The
  guards of \<^verbatim>\<open>matches\<close> test the threshold for truth, so a threshold of zero is ignored:
  raising \<^verbatim>\<open>min_price_change\<close> from -5 to 0 lets a token with a change of -10 through that
  the filter with -5 rejects.
\<close>

theorem zero_threshold_ignored:
  "filter_tokens (CriteriaFilter (default_criteria\<lparr>min_price_change := Some (Fin 0)\<rparr>))
     [blank_token\<lparr>price_change_percent := Fin (- 10)\<rparr>]
     = [blank_token\<lparr>price_change_percent := Fin (- 10)\<rparr>]
   \<and> filter_tokens (CriteriaFilter (default_criteria\<lparr>min_price_change := Some (Fin (- 5))\<rparr>))
     [blank_token\<lparr>price_change_percent := Fin (- 10)\<rparr>] = []"
  by (simp add: matches_def default_criteria_def blank_token_def below_min_def above_max_def
      below_min_int_def float_truthy_def)

text \<open>
  Apart from zero (and NaN) thresholds the filter is monotone: when every threshold of
  \<open>c'\<close> is the one of \<open>c\<close> or a stricter non-zero one, what \<open>c'\<close> keeps, \<open>c\<close> keeps.
\<close>

lemma fl_lt_le_trans: "fl_lt x a \<Longrightarrow> fl_le a b \<Longrightarrow> fl_lt x b"
  by (cases x; cases a; cases b) simp_all

lemma fl_le_lt_trans: "fl_le b a \<Longrightarrow> fl_lt a x \<Longrightarrow> fl_lt b x"
  by (cases x; cases a; cases b) simp_all

lemma below_min_mono: "tightened_min m m' \<Longrightarrow> below_min m x \<Longrightarrow> below_min m' x"
  by (auto simp: tightened_min_def below_min_def split: option.splits dest: fl_lt_le_trans)

lemma above_max_mono: "tightened_max m m' \<Longrightarrow> above_max m x \<Longrightarrow> above_max m' x"
  by (auto simp: tightened_max_def above_max_def split: option.splits dest: fl_le_lt_trans)

lemma below_min_int_mono:
  "tightened_min_int m m' \<Longrightarrow> below_min_int m x \<Longrightarrow> below_min_int m' x"
  by (auto simp: tightened_min_int_def below_min_int_def split: option.splits)

lemma matches_monotone:
  assumes "tightened c c'" and "matches c' token"
  shows "matches c token"
proof -
  from assms(1) have t:
    "tightened_min (min_volume c) (min_volume c')"
    "tightened_max (max_volume c) (max_volume c')"
    "tightened_min (min_market_cap c) (min_market_cap c')"
    "tightened_max (max_market_cap c) (max_market_cap c')"
    "tightened_min (min_liquidity c) (min_liquidity c')"
    "tightened_max (max_liquidity c) (max_liquidity c')"
    "tightened_min_int (min_holder_count c) (min_holder_count c')"
    "tightened_min (min_price_change c) (min_price_change c')"
    "tightened_max (max_price_change c) (max_price_change c')"
    "exclude_honeypots c' \<or> \<not> exclude_honeypots c"
    by (simp_all add: tightened_def)
  from assms(2) show ?thesis
    unfolding matches_def
    using below_min_mono[OF t(1)] above_max_mono[OF t(2)] below_min_mono[OF t(3)]
      above_max_mono[OF t(4)] below_min_mono[OF t(5)] above_max_mono[OF t(6)]
      below_min_int_mono[OF t(7)] below_min_mono[OF t(8)] above_max_mono[OF t(9)] t(10)
    by (auto split: if_splits)
qed

lemma criteria_filter_monotone:
  "tightened c c' \<Longrightarrow>
   set (filter_tokens (CriteriaFilter c') tokens) \<subseteq> set (filter_tokens (CriteriaFilter c) tokens)"
  using matches_monotone by auto

section \<open>Building a token from a mapping\<close>

lemma float_overflow_bound_pos: "0 < float_overflow_bound"
  by (simp add: float_overflow_bound_def)

lemma round_to_double_small: "\<bar>i\<bar> < 2 ^ 53 \<Longrightarrow> round_to_double i = i"
  by (simp add: round_to_double_def)

lemma bit_length_0: "bit_length 0 = 0"
  by (simp add: bit_length.simps)

lemma bit_length_1: "bit_length (Suc 0) = Suc 0"
  by (simp add: bit_length.simps[of "Suc 0"] bit_length_0)

lemma bit_length_Bit0: "bit_length (numeral (Num.Bit0 n)) = Suc (bit_length (numeral n))"
  by (subst bit_length.simps) simp

lemma bit_length_Bit1: "bit_length (numeral (Num.Bit1 n)) = Suc (bit_length (numeral n))"
  by (subst bit_length.simps) simp

text \<open>
  Beyond 53 bits the conversion rounds: \<open>2^53 + 1\<close> lies halfway between two doubles and
  goes to the even one, \<open>2^53\<close>; \<open>-(2^53 + 3)\<close> goes to \<open>-(2^53 + 4)\<close>.
\<close>

lemma round_to_double_tie: "round_to_double 9007199254740993 = 9007199254740992"
  by (simp add: round_to_double_def bit_length_Bit0 bit_length_Bit1 bit_length_1 Let_def)

lemma round_to_double_odd: "round_to_double (- 9007199254740995) = - 9007199254740996"
  by (simp add: round_to_double_def bit_length_Bit0 bit_length_Bit1 bit_length_1 Let_def)

lemma py_float_rounds:
  "py_float sf (PInt 9007199254740993) = Inr (Fin 9007199254740992)"
  by (simp add: round_to_double_tie float_overflow_bound_def)

lemma py_float_zero: "py_float sf (PInt 0) = Inr (Fin 0)"
  using float_overflow_bound_pos by (simp add: round_to_double_small)

lemma float_field:
  assumes "\<forall>v. map_of d k = Some v \<longrightarrow> (\<exists>f. py_float sf v = Inr f)"
  shows "\<exists>f. py_float sf (dict_get d k (PInt 0)) = Inr f
           \<and> Inr f = (case map_of d k of None \<Rightarrow> Inr (Fin 0) | Some v \<Rightarrow> py_float sf v)"
proof (cases "map_of d k")
  case None
  then show ?thesis by (simp add: dict_get_def py_float_zero del: py_float.simps)
next
  case (Some v)
  with assms obtain f where "py_float sf v = Inr f" by blast
  with Some show ?thesis by (simp add: dict_get_def)
qed

lemma int_field:
  assumes "\<forall>v. map_of d k = Some v \<longrightarrow> (\<exists>i. py_int si v = Inr i)"
  shows "\<exists>i. py_int si (dict_get d k (PInt 0)) = Inr i
           \<and> Inr i = (case map_of d k of None \<Rightarrow> Inr 0 | Some v \<Rightarrow> py_int si v)"
proof (cases "map_of d k")
  case None
  then show ?thesis by (simp add: dict_get_def)
next
  case (Some v)
  with assms obtain i where "py_int si v = Inr i" by blast
  with Some show ?thesis by (simp add: dict_get_def)
qed

lemma plain_field:
  "dict_get d k dflt = (case map_of d k of None \<Rightarrow> dflt | Some v \<Rightarrow> v)"
  by (simp add: dict_get_def)

lemma bind_res_Inl:
  "bind_res m f = Inl e \<longleftrightarrow> m = Inl e \<or> (\<exists>x. m = Inr x \<and> f x = Inl e)"
  by (cases m) (simp_all add: bind_res_def)

lemma bind_res_Inr: "bind_res m f = Inr y \<longleftrightarrow> (\<exists>x. m = Inr x \<and> f x = Inr y)"
  by (cases m) (simp_all add: bind_res_def)

text \<open>An exception of \<^verbatim>\<open>from_dict\<close> is the exception of one of its sixteen conversions.\<close>

lemma from_dict_Inl_cases:
  assumes "from_dict sf si d = Inl e"
  shows "(\<exists>k \<in> set float_keys. py_float sf (dict_get d k (PInt 0)) = Inl e)
       \<or> (\<exists>k \<in> set int_keys. py_int si (dict_get d k (PInt 0)) = Inl e)"
  using assms unfolding from_dict_def bind_res_Inl
  by (elim disjE exE conjE)
     (simp_all add: float_keys_def int_keys_def del: py_float.simps py_int.simps)

text \<open>When \<^verbatim>\<open>from_dict\<close> returns, each of its conversions has succeeded.\<close>

lemma from_dict_Inr_conversions:
  assumes "from_dict sf si d = Inr t"
  shows "(\<forall>k \<in> set float_keys. \<exists>f. py_float sf (dict_get d k (PInt 0)) = Inr f)
       \<and> (\<forall>k \<in> set int_keys. \<exists>i. py_int si (dict_get d k (PInt 0)) = Inr i)"
  using assms unfolding from_dict_def bind_res_Inr
  by (elim exE conjE)
     (simp add: float_keys_def int_keys_def del: py_float.simps py_int.simps)

text \<open>The exception raised comes from a key that is present: the default 0 converts.\<close>

lemma from_dict_raises_rejected:
  assumes "from_dict sf si d = Inl e"
  shows "\<exists>k v. map_of d k = Some v
           \<and> (k \<in> set float_keys \<and> py_float sf v = Inl e
              \<or> k \<in> set int_keys \<and> py_int si v = Inl e)"
proof -
  from from_dict_Inl_cases[OF assms] consider
      k where "k \<in> set float_keys" "py_float sf (dict_get d k (PInt 0)) = Inl e"
    | k where "k \<in> set int_keys" "py_int si (dict_get d k (PInt 0)) = Inl e"
    by blast
  then show ?thesis
  proof cases
    case 1
    then obtain v where "map_of d k = Some v" "py_float sf v = Inl e"
      by (cases "map_of d k") (simp_all add: dict_get_def py_float_zero del: py_float.simps)
    with 1(1) show ?thesis by blast
  next
    case 2
    then obtain v where "map_of d k = Some v" "py_int si v = Inl e"
      by (cases "map_of d k") (simp_all add: dict_get_def)
    with 2(1) show ?thesis by blast
  qed
qed

text \<open>A present value that its conversion rejects makes \<^verbatim>\<open>from_dict\<close> raise.\<close>

lemma from_dict_rejected_raises:
  assumes "(\<exists>k \<in> set float_keys. \<exists>v e. map_of d k = Some v \<and> py_float sf v = Inl e)
         \<or> (\<exists>k \<in> set int_keys. \<exists>v e. map_of d k = Some v \<and> py_int si v = Inl e)"
  shows "\<exists>e. from_dict sf si d = Inl e"
proof (cases "from_dict sf si d")
  case (Inl e)
  then show ?thesis by blast
next
  case (Inr t)
  note c = from_dict_Inr_conversions[OF Inr]
  from assms show ?thesis
  proof
    assume "\<exists>k \<in> set float_keys. \<exists>v e. map_of d k = Some v \<and> py_float sf v = Inl e"
    then obtain k v e where k: "k \<in> set float_keys" "map_of d k = Some v" "py_float sf v = Inl e"
      by blast
    from c k(1) obtain f where "py_float sf (dict_get d k (PInt 0)) = Inr f" by blast
    with k(2,3) show ?thesis by (simp add: dict_get_def)
  next
    assume "\<exists>k \<in> set int_keys. \<exists>v e. map_of d k = Some v \<and> py_int si v = Inl e"
    then obtain k v e where k: "k \<in> set int_keys" "map_of d k = Some v" "py_int si v = Inl e"
      by blast
    from c k(1) obtain i where "py_int si (dict_get d k (PInt 0)) = Inr i" by blast
    with k(2,3) show ?thesis by (simp add: dict_get_def)
  qed
qed

text \<open>
  Claim C6, as amended. For every mapping in which each present key of a numeric field
  holds a value that \<^verbatim>\<open>float\<close> (or \<^verbatim>\<open>int\<close>) accepts, \<^verbatim>\<open>Token.from_dict\<close> returns a token;
  in it a field whose key is absent has its default (0 for \<^verbatim>\<open>id\<close>, the empty string for
  \<^verbatim>\<open>chain\<close>, \<^verbatim>\<open>address\<close> and \<^verbatim>\<open>symbol\<close>, 0.0 for the float fields, 0 for the integer fields,
  None for \<^verbatim>\<open>logo\<close>, \<^verbatim>\<open>buy_tax\<close>, \<^verbatim>\<open>sell_tax\<close>, \<^verbatim>\<open>total_supply\<close>, \<^verbatim>\<open>buys\<close>, \<^verbatim>\<open>sells\<close>,
  \<^verbatim>\<open>sniper_count\<close> and \<^verbatim>\<open>lock_info\<close>, whose key is \<^verbatim>\<open>lockInfo\<close>), and a field whose key is
  present has the mapping's value, converted for the numeric fields. For every mapping in
  which some present key of a numeric field holds a value that its conversion rejects,
  \<^verbatim>\<open>Token.from_dict\<close> raises, and the exception is the one that the conversion of such a
  value raises.
\<close>

theorem from_dict_default_filled:
  "((\<forall>k \<in> set float_keys. \<forall>v. map_of d k = Some v \<longrightarrow> (\<exists>f. py_float sf v = Inr f))
    \<and> (\<forall>k \<in> set int_keys. \<forall>v. map_of d k = Some v \<longrightarrow> (\<exists>i. py_int si v = Inr i))
   \<longrightarrow> (\<exists>t. from_dict sf si d = Inr t
     \<and> id_t t = (case map_of d ''id'' of None \<Rightarrow> PInt 0 | Some v \<Rightarrow> v)
     \<and> chain_t t = (case map_of d ''chain'' of None \<Rightarrow> PStr [] | Some v \<Rightarrow> v)
     \<and> address t = (case map_of d ''address'' of None \<Rightarrow> PStr [] | Some v \<Rightarrow> v)
     \<and> symbol t = (case map_of d ''symbol'' of None \<Rightarrow> PStr [] | Some v \<Rightarrow> v)
     \<and> Inr (price t) = (case map_of d ''price'' of None \<Rightarrow> Inr (Fin 0) | Some v \<Rightarrow> py_float sf v)
     \<and> Inr (volume t) = (case map_of d ''volume'' of None \<Rightarrow> Inr (Fin 0) | Some v \<Rightarrow> py_float sf v)
     \<and> Inr (liquidity t) =
         (case map_of d ''liquidity'' of None \<Rightarrow> Inr (Fin 0) | Some v \<Rightarrow> py_float sf v)
     \<and> Inr (market_cap t) =
         (case map_of d ''market_cap'' of None \<Rightarrow> Inr (Fin 0) | Some v \<Rightarrow> py_float sf v)
     \<and> Inr (holder_count t) =
         (case map_of d ''holder_count'' of None \<Rightarrow> Inr 0 | Some v \<Rightarrow> py_int si v)
     \<and> Inr (swaps t) = (case map_of d ''swaps'' of None \<Rightarrow> Inr 0 | Some v \<Rightarrow> py_int si v)
     \<and> Inr (price_change_percent t) =
         (case map_of d ''price_change_percent'' of None \<Rightarrow> Inr (Fin 0) | Some v \<Rightarrow> py_float sf v)
     \<and> Inr (price_change_percent1m t) =
         (case map_of d ''price_change_percent1m'' of None \<Rightarrow> Inr (Fin 0)
          | Some v \<Rightarrow> py_float sf v)
     \<and> Inr (price_change_percent5m t) =
         (case map_of d ''price_change_percent5m'' of None \<Rightarrow> Inr (Fin 0)
          | Some v \<Rightarrow> py_float sf v)
     \<and> Inr (price_change_percent1h t) =
         (case map_of d ''price_change_percent1h'' of None \<Rightarrow> Inr (Fin 0)
          | Some v \<Rightarrow> py_float sf v)
     \<and> Inr (smart_buy_24h t) =
         (case map_of d ''smart_buy_24h'' of None \<Rightarrow> Inr 0 | Some v \<Rightarrow> py_int si v)
     \<and> Inr (smart_sell_24h t) =
         (case map_of d ''smart_sell_24h'' of None \<Rightarrow> Inr 0 | Some v \<Rightarrow> py_int si v)
     \<and> Inr (is_honeypot t) =
         (case map_of d ''is_honeypot'' of None \<Rightarrow> Inr 0 | Some v \<Rightarrow> py_int si v)
     \<and> Inr (is_open_source t) =
         (case map_of d ''is_open_source'' of None \<Rightarrow> Inr 0 | Some v \<Rightarrow> py_int si v)
     \<and> Inr (renounced t) =
         (case map_of d ''renounced'' of None \<Rightarrow> Inr 0 | Some v \<Rightarrow> py_int si v)
     \<and> Inr (bluechip_owner_percentage t) =
         (case map_of d ''bluechip_owner_percentage'' of None \<Rightarrow> Inr (Fin 0)
          | Some v \<Rightarrow> py_float sf v)
     \<and> logo t = (case map_of d ''logo'' of None \<Rightarrow> PNone | Some v \<Rightarrow> v)
     \<and> buy_tax t = (case map_of d ''buy_tax'' of None \<Rightarrow> PNone | Some v \<Rightarrow> v)
     \<and> sell_tax t = (case map_of d ''sell_tax'' of None \<Rightarrow> PNone | Some v \<Rightarrow> v)
     \<and> total_supply t = (case map_of d ''total_supply'' of None \<Rightarrow> PNone | Some v \<Rightarrow> v)
     \<and> buys t = (case map_of d ''buys'' of None \<Rightarrow> PNone | Some v \<Rightarrow> v)
     \<and> sells t = (case map_of d ''sells'' of None \<Rightarrow> PNone | Some v \<Rightarrow> v)
     \<and> sniper_count t = (case map_of d ''sniper_count'' of None \<Rightarrow> PNone | Some v \<Rightarrow> v)
     \<and> lock_info t = (case map_of d ''lockInfo'' of None \<Rightarrow> PNone | Some v \<Rightarrow> v)))
   \<and> ((\<exists>k \<in> set float_keys. \<exists>v e. map_of d k = Some v \<and> py_float sf v = Inl e)
       \<or> (\<exists>k \<in> set int_keys. \<exists>v e. map_of d k = Some v \<and> py_int si v = Inl e)
      \<longrightarrow> (\<exists>e. from_dict sf si d = Inl e
            \<and> (\<exists>k v. map_of d k = Some v
                   \<and> (k \<in> set float_keys \<and> py_float sf v = Inl e
                      \<or> k \<in> set int_keys \<and> py_int si v = Inl e))))"
  (is "(?Accepted \<longrightarrow> ?Returns) \<and> (?Rejected \<longrightarrow> ?Raises)")
proof (intro conjI impI)
  assume "?Accepted"
  then have fl: "\<forall>k \<in> set float_keys. \<forall>v. map_of d k = Some v \<longrightarrow> (\<exists>f. py_float sf v = Inr f)"
    and it: "\<forall>k \<in> set int_keys. \<forall>v. map_of d k = Some v \<longrightarrow> (\<exists>i. py_int si v = Inr i)"
    by blast+
  have F: "\<And>k. k \<in> set float_keys \<Longrightarrow> \<exists>f. py_float sf (dict_get d k (PInt 0)) = Inr f
           \<and> Inr f = (case map_of d k of None \<Rightarrow> Inr (Fin 0) | Some v \<Rightarrow> py_float sf v)"
    using fl float_field by blast
  have I: "\<And>k. k \<in> set int_keys \<Longrightarrow> \<exists>i. py_int si (dict_get d k (PInt 0)) = Inr i
           \<and> Inr i = (case map_of d k of None \<Rightarrow> Inr 0 | Some v \<Rightarrow> py_int si v)"
    using it int_field by blast
  obtain f1 where f1: "py_float sf (dict_get d ''price'' (PInt 0)) = Inr f1"
    "Inr f1 = (case map_of d ''price'' of None \<Rightarrow> Inr (Fin 0) | Some v \<Rightarrow> py_float sf v)"
    using F[of "''price''"] by (auto simp: float_keys_def)
  obtain f2 where f2: "py_float sf (dict_get d ''volume'' (PInt 0)) = Inr f2"
    "Inr f2 = (case map_of d ''volume'' of None \<Rightarrow> Inr (Fin 0) | Some v \<Rightarrow> py_float sf v)"
    using F[of "''volume''"] by (auto simp: float_keys_def)
  obtain f3 where f3: "py_float sf (dict_get d ''liquidity'' (PInt 0)) = Inr f3"
    "Inr f3 = (case map_of d ''liquidity'' of None \<Rightarrow> Inr (Fin 0) | Some v \<Rightarrow> py_float sf v)"
    using F[of "''liquidity''"] by (auto simp: float_keys_def)
  obtain f4 where f4: "py_float sf (dict_get d ''market_cap'' (PInt 0)) = Inr f4"
    "Inr f4 = (case map_of d ''market_cap'' of None \<Rightarrow> Inr (Fin 0) | Some v \<Rightarrow> py_float sf v)"
    using F[of "''market_cap''"] by (auto simp: float_keys_def)
  obtain f5 where f5: "py_float sf (dict_get d ''price_change_percent'' (PInt 0)) = Inr f5"
    "Inr f5 = (case map_of d ''price_change_percent'' of None \<Rightarrow> Inr (Fin 0)
               | Some v \<Rightarrow> py_float sf v)"
    using F[of "''price_change_percent''"] by (auto simp: float_keys_def)
  obtain f6 where f6: "py_float sf (dict_get d ''price_change_percent1m'' (PInt 0)) = Inr f6"
    "Inr f6 = (case map_of d ''price_change_percent1m'' of None \<Rightarrow> Inr (Fin 0)
               | Some v \<Rightarrow> py_float sf v)"
    using F[of "''price_change_percent1m''"] by (auto simp: float_keys_def)
  obtain f7 where f7: "py_float sf (dict_get d ''price_change_percent5m'' (PInt 0)) = Inr f7"
    "Inr f7 = (case map_of d ''price_change_percent5m'' of None \<Rightarrow> Inr (Fin 0)
               | Some v \<Rightarrow> py_float sf v)"
    using F[of "''price_change_percent5m''"] by (auto simp: float_keys_def)
  obtain f8 where f8: "py_float sf (dict_get d ''price_change_percent1h'' (PInt 0)) = Inr f8"
    "Inr f8 = (case map_of d ''price_change_percent1h'' of None \<Rightarrow> Inr (Fin 0)
               | Some v \<Rightarrow> py_float sf v)"
    using F[of "''price_change_percent1h''"] by (auto simp: float_keys_def)
  obtain f9 where f9: "py_float sf (dict_get d ''bluechip_owner_percentage'' (PInt 0)) = Inr f9"
    "Inr f9 = (case map_of d ''bluechip_owner_percentage'' of None \<Rightarrow> Inr (Fin 0)
               | Some v \<Rightarrow> py_float sf v)"
    using F[of "''bluechip_owner_percentage''"] by (auto simp: float_keys_def)
  obtain i1 where i1: "py_int si (dict_get d ''holder_count'' (PInt 0)) = Inr i1"
    "Inr i1 = (case map_of d ''holder_count'' of None \<Rightarrow> Inr 0 | Some v \<Rightarrow> py_int si v)"
    using I[of "''holder_count''"] by (auto simp: int_keys_def)
  obtain i2 where i2: "py_int si (dict_get d ''swaps'' (PInt 0)) = Inr i2"
    "Inr i2 = (case map_of d ''swaps'' of None \<Rightarrow> Inr 0 | Some v \<Rightarrow> py_int si v)"
    using I[of "''swaps''"] by (auto simp: int_keys_def)
  obtain i3 where i3: "py_int si (dict_get d ''smart_buy_24h'' (PInt 0)) = Inr i3"
    "Inr i3 = (case map_of d ''smart_buy_24h'' of None \<Rightarrow> Inr 0 | Some v \<Rightarrow> py_int si v)"
    using I[of "''smart_buy_24h''"] by (auto simp: int_keys_def)
  obtain i4 where i4: "py_int si (dict_get d ''smart_sell_24h'' (PInt 0)) = Inr i4"
    "Inr i4 = (case map_of d ''smart_sell_24h'' of None \<Rightarrow> Inr 0 | Some v \<Rightarrow> py_int si v)"
    using I[of "''smart_sell_24h''"] by (auto simp: int_keys_def)
  obtain i5 where i5: "py_int si (dict_get d ''is_honeypot'' (PInt 0)) = Inr i5"
    "Inr i5 = (case map_of d ''is_honeypot'' of None \<Rightarrow> Inr 0 | Some v \<Rightarrow> py_int si v)"
    using I[of "''is_honeypot''"] by (auto simp: int_keys_def)
  obtain i6 where i6: "py_int si (dict_get d ''is_open_source'' (PInt 0)) = Inr i6"
    "Inr i6 = (case map_of d ''is_open_source'' of None \<Rightarrow> Inr 0 | Some v \<Rightarrow> py_int si v)"
    using I[of "''is_open_source''"] by (auto simp: int_keys_def)
  obtain i7 where i7: "py_int si (dict_get d ''renounced'' (PInt 0)) = Inr i7"
    "Inr i7 = (case map_of d ''renounced'' of None \<Rightarrow> Inr 0 | Some v \<Rightarrow> py_int si v)"
    using I[of "''renounced''"] by (auto simp: int_keys_def)
  note conv = f1(1) f2(1) f3(1) f4(1) f5(1) f6(1) f7(1) f8(1) f9(1)
    i1(1) i2(1) i3(1) i4(1) i5(1) i6(1) i7(1)
  note vals = f1(2) f2(2) f3(2) f4(2) f5(2) f6(2) f7(2) f8(2) f9(2)
    i1(2) i2(2) i3(2) i4(2) i5(2) i6(2) i7(2)
  show ?Returns
    unfolding from_dict_def conv bind_res_def sum.case
    using vals by (simp add: plain_field)
next
  assume "?Rejected"
  then obtain e where "from_dict sf si d = Inl e"
    using from_dict_rejected_raises by blast
  then show ?Raises
    using from_dict_raises_rejected by blast
qed

theorem from_dict_default_filled_witness:
  "(\<exists>t. from_dict digits_float digits_int sample_item = Inr t
     \<and> symbol t = PStr ''ABC'' \<and> price t = Fin 12 \<and> holder_count t = 7 \<and> is_honeypot t = 1
     \<and> logo t = PStr ''abc.png''
     \<and> id_t t = PInt 0 \<and> chain_t t = PStr [] \<and> volume t = Fin 0 \<and> swaps t = 0
     \<and> buys t = PNone \<and> lock_info t = PNone)
   \<and> from_dict digits_float digits_int rejected_item = Inl ValueError"
proof -
  have h1: "\<forall>k \<in> set float_keys. \<forall>v. map_of sample_item k = Some v
              \<longrightarrow> (\<exists>f. py_float digits_float v = Inr f)"
    by (simp add: float_keys_def sample_item_def digits_float_def digits_int_def)
  have h2: "\<forall>k \<in> set int_keys. \<forall>v. map_of sample_item k = Some v
              \<longrightarrow> (\<exists>i. py_int digits_int v = Inr i)"
    by (simp add: int_keys_def sample_item_def)
  note accepted = from_dict_default_filled[where d = sample_item and sf = digits_float
      and si = digits_int, THEN conjunct1, THEN mp, OF conjI[OF h1 h2]]
  from accepted obtain t where
    t: "from_dict digits_float digits_int sample_item = Inr t"
    and plain: "symbol t = (case map_of sample_item ''symbol'' of None \<Rightarrow> PStr [] | Some v \<Rightarrow> v)"
      "logo t = (case map_of sample_item ''logo'' of None \<Rightarrow> PNone | Some v \<Rightarrow> v)"
      "id_t t = (case map_of sample_item ''id'' of None \<Rightarrow> PInt 0 | Some v \<Rightarrow> v)"
      "chain_t t = (case map_of sample_item ''chain'' of None \<Rightarrow> PStr [] | Some v \<Rightarrow> v)"
      "buys t = (case map_of sample_item ''buys'' of None \<Rightarrow> PNone | Some v \<Rightarrow> v)"
      "lock_info t = (case map_of sample_item ''lockInfo'' of None \<Rightarrow> PNone | Some v \<Rightarrow> v)"
    and conv: "Inr (price t) = (case map_of sample_item ''price'' of None \<Rightarrow> Inr (Fin 0)
                                | Some v \<Rightarrow> py_float digits_float v)"
      "Inr (volume t) = (case map_of sample_item ''volume'' of None \<Rightarrow> Inr (Fin 0)
                         | Some v \<Rightarrow> py_float digits_float v)"
      "Inr (holder_count t) = (case map_of sample_item ''holder_count'' of None \<Rightarrow> Inr 0
                               | Some v \<Rightarrow> py_int digits_int v)"
      "Inr (is_honeypot t) = (case map_of sample_item ''is_honeypot'' of None \<Rightarrow> Inr 0
                              | Some v \<Rightarrow> py_int digits_int v)"
      "Inr (swaps t) = (case map_of sample_item ''swaps'' of None \<Rightarrow> Inr 0
                        | Some v \<Rightarrow> py_int digits_int v)"
    by blast
  from plain conv have
    "symbol t = PStr ''ABC'' \<and> price t = Fin 12 \<and> holder_count t = 7 \<and> is_honeypot t = 1
     \<and> logo t = PStr ''abc.png''
     \<and> id_t t = PInt 0 \<and> chain_t t = PStr [] \<and> volume t = Fin 0 \<and> swaps t = 0
     \<and> buys t = PNone \<and> lock_info t = PNone"
    by (simp add: sample_item_def digits_float_def digits_int_def)
  with t have returns: "\<exists>t. from_dict digits_float digits_int sample_item = Inr t
     \<and> symbol t = PStr ''ABC'' \<and> price t = Fin 12 \<and> holder_count t = 7 \<and> is_honeypot t = 1
     \<and> logo t = PStr ''abc.png''
     \<and> id_t t = PInt 0 \<and> chain_t t = PStr [] \<and> volume t = Fin 0 \<and> swaps t = 0
     \<and> buys t = PNone \<and> lock_info t = PNone"
    by blast
  have vol: "map_of rejected_item ''volume'' = Some (PStr ''abc'')"
    "py_float digits_float (PStr ''abc'') = Inl ValueError"
    by (simp_all add: rejected_item_def digits_float_def digits_int_def)
  have "''volume'' \<in> set float_keys" by (simp add: float_keys_def)
  with vol have r: "(\<exists>k \<in> set float_keys. \<exists>v e. map_of rejected_item k = Some v
                       \<and> py_float digits_float v = Inl e)
         \<or> (\<exists>k \<in> set int_keys. \<exists>v e. map_of rejected_item k = Some v
                       \<and> py_int digits_int v = Inl e)"
    by blast
  note rejected = from_dict_default_filled[where d = rejected_item and sf = digits_float
      and si = digits_int, THEN conjunct2, THEN mp, OF r]
  from rejected obtain e k v where
    e: "from_dict digits_float digits_int rejected_item = Inl e"
    and kv: "map_of rejected_item k = Some v"
    and src: "k \<in> set float_keys \<and> py_float digits_float v = Inl e
              \<or> k \<in> set int_keys \<and> py_int digits_int v = Inl e"
    by blast
  from kv have "(k = ''symbol'' \<and> v = PStr ''XYZ'') \<or> (k = ''volume'' \<and> v = PStr ''abc'')
                \<or> (k = ''holder_count'' \<and> v = PInt 3)"
    by (simp add: rejected_item_def split: if_splits)
  with src have "e = ValueError"
    by (auto simp: float_keys_def int_keys_def digits_float_def digits_int_def)
  with e returns show ?thesis by blast
qed

text \<open>
  A mapping whose price is null: \<^verbatim>\<open>float(None)\<close> raises a TypeError and no token is built.
\<close>

theorem from_dict_null_price_counterexample:
  "from_dict digits_float digits_int [(''price'', PNone)] = Inl TypeError"
  by (simp add: from_dict_def dict_get_def bind_res_def)

section \<open>Parsing a response\<close>

lemma parse_items_map_filter:
  "parse_items sf si items tokens =
     tokens @ List.map_filter
       (\<lambda>item. case item of
                  PDict m \<Rightarrow> (case from_dict sf si m of Inr t \<Rightarrow> Some t | Inl e \<Rightarrow> None)
                | _ \<Rightarrow> None) items"
proof (induction items arbitrary: tokens)
  case Nil
  show ?case by (simp add: map_filter_simps)
next
  case (Cons item rest)
  show ?case
    by (cases item) (simp_all add: Cons.IH map_filter_simps split: sum.splits)
qed

text \<open>
  Claim C3. For a response whose \<^verbatim>\<open>data\<close> is a dictionary with a list under \<^verbatim>\<open>rank\<close>,
  \<^verbatim>\<open>parse_response\<close> does not raise: it returns, in the order of the list, the token of
  every item that is a dictionary on which \<^verbatim>\<open>Token.from_dict\<close> succeeds, and passes over
  every other item, wherever it stands in the list.
\<close>

theorem parse_response_skips_malformed:
  assumes "map_of r ''data'' = Some (PDict d)" and "map_of d ''rank'' = Some (PList items)"
  shows "parse_response sf si (PDict r) =
     Inr (List.map_filter
            (\<lambda>item. case item of
                       PDict m \<Rightarrow> (case from_dict sf si m of Inr t \<Rightarrow> Some t | Inl e \<Rightarrow> None)
                     | _ \<Rightarrow> None) items)"
  using assms by (simp add: parse_response_def parse_items_map_filter)

theorem parse_response_skips_malformed_witness:
  "parse_response digits_float digits_int sample_response =
     Inr [blank_token\<lparr>symbol := PStr ''A'', volume := Fin 5\<rparr>,
          blank_token\<lparr>symbol := PStr ''C'', swaps := 12\<rparr>]"
proof -
  let ?items = "[PDict [(''symbol'', PStr ''A''), (''volume'', PInt 5)],
                 PStr ''oops'',
                 PDict [(''symbol'', PStr ''B''), (''price'', PNone)],
                 PDict [(''symbol'', PStr ''C''), (''swaps'', PStr ''12'')]]"
  let ?d = "[(''rank'', PList ?items)]"
  let ?r = "[(''code'', PInt 0), (''data'', PDict ?d)]"
  have h1: "map_of ?r ''data'' = Some (PDict ?d)" by simp
  have h2: "map_of ?d ''rank'' = Some (PList ?items)" by simp
  have "parse_response digits_float digits_int (PDict ?r) =
     Inr [blank_token\<lparr>symbol := PStr ''A'', volume := Fin 5\<rparr>,
          blank_token\<lparr>symbol := PStr ''C'', swaps := 12\<rparr>]"
    unfolding parse_response_skips_malformed[OF h1 h2]
    by (simp add: map_filter_simps from_dict_def dict_get_def bind_res_def blank_token_def
        digits_float_def digits_int_def float_overflow_bound_def round_to_double_small)
  then show ?thesis by (simp add: sample_response_def)
qed

section \<open>The retrying request\<close>

text \<open>
  Claim C5, as amended. A response with a status other than 200 makes the attempt raise a
  \<^verbatim>\<open>GMGNAPIError\<close> that carries the status code; its message is the response text, except
  for the statuses 403, 429 and 503, where it is the fixed text "Cloudflare block detected".
\<close>

theorem non_200_api_error:
  "status_code r \<noteq> 200 \<Longrightarrow>
   try_request (Responds r) =
     Inl (GMGNAPIError (status_code r)
           (if status_code r \<in> {403, 429, 503} then ''Cloudflare block detected'' else text_r r))"
  by (simp add: try_request_def)

theorem non_200_api_error_witness:
  "try_request (Responds \<lparr> status_code = 500, text_r = ''Internal Server Error'', json = Inl [] \<rparr>)
     = Inl (GMGNAPIError 500 ''Internal Server Error'')"
  using non_200_api_error[of "\<lparr> status_code = 500, text_r = ''Internal Server Error'', json = Inl [] \<rparr>"]
  by simp

text \<open>A 403 response with the body "Forbidden": the error does not carry the body.\<close>

theorem cloudflare_message_counterexample:
  "try_request (Responds \<lparr> status_code = 403, text_r = ''Forbidden'', json = Inl [] \<rparr>)
     = Inl (GMGNAPIError 403 ''Cloudflare block detected'')
   \<and> try_request (Responds \<lparr> status_code = 403, text_r = ''Forbidden'', json = Inl [] \<rparr>)
     \<noteq> Inl (GMGNAPIError 403 ''Forbidden'')"
  by (simp add: try_request_def)

lemma state_at_0: "state_at cl 0 = cl"
  by (simp add: state_at_def)

lemma config_state_at: "config (state_at cl j) = config cl"
  by (simp add: state_at_def)

lemma sent_refresh_state_at:
  "refresh_session ((state_at cl j)\<lparr>requests_sent := Suc (requests_sent (state_at cl j))\<rparr>)
     = state_at cl (Suc j)"
  by (simp add: state_at_def refresh_session_def)

text \<open>The loop from attempt \<open>i\<close> on, when attempt \<open>k\<close> is the first to succeed.\<close>

lemma loop_success:
  assumes n: "n = nat (max_retries (config cl))"
      and k: "k < n" and ok: "attempt_result net url params cl k = Inr v"
      and fails: "\<forall>j. i \<le> j \<and> j < k \<longrightarrow> isl (attempt_result net url params cl j)"
      and ik: "i \<le> k"
  shows "attempt_loop net url params (map int [i..<n]) prev (state_at cl i)
           = (Inr v, (state_at cl k)\<lparr>requests_sent := Suc (requests_sent cl + k)\<rparr>)"
  using ik fails
proof (induction i arbitrary: prev rule: inc_induct)
  case base
  have "[k..<n] = k # [Suc k..<n]" using k by (simp add: upt_conv_Cons)
  then show ?case using ok
    by (simp add: attempt_result_def Let_def state_at_def)
next
  case (step i)
  have i_n: "i < n" using step.hyps k by simp
  have lst: "[i..<n] = i # [Suc i..<n]" using i_n by (simp add: upt_conv_Cons)
  from step.prems step.hyps obtain e where e: "attempt_result net url params cl i = Inl e"
    by (metis isl_def le_refl)
  have lt: "int i < max_retries (config cl) - 1" using step.hyps k n by linarith
  have "attempt_loop net url params (map int [i..<n]) prev (state_at cl i)
          = attempt_loop net url params (map int [Suc i..<n]) (Some e) (state_at cl (Suc i))"
    using e lt unfolding lst
    by (simp add: attempt_result_def Let_def config_state_at sent_refresh_state_at)
  also have "\<dots> = (Inr v, (state_at cl k)\<lparr>requests_sent := Suc (requests_sent cl + k)\<rparr>)"
    using step.IH step.prems by simp
  finally show ?case .
qed

text \<open>The loop from attempt \<open>i\<close> on, when every attempt fails.\<close>

lemma loop_fail:
  assumes n: "n = nat (max_retries (config cl))"
      and fails: "\<forall>j. j < n \<longrightarrow> isl (attempt_result net url params cl j)"
      and i_n: "i < n"
  shows "\<exists>e. attempt_result net url params cl (n - 1) = Inl e
           \<and> attempt_loop net url params (map int [i..<n]) prev (state_at cl i)
               = (Inl (Some e), (state_at cl (n - 1))\<lparr>requests_sent := requests_sent cl + n\<rparr>)"
  using i_n
proof (induction i arbitrary: prev rule: strict_inc_induct)
  case (base i)
  have lst: "[i..<n] = [i]" using base by simp
  from fails base obtain e where e: "attempt_result net url params cl i = Inl e"
    by (metis isl_def lessI)
  have nlt: "\<not> int i < max_retries (config cl) - 1" using base n by linarith
  show ?case using e nlt base unfolding lst
    by (simp add: attempt_result_def Let_def config_state_at state_at_def)
next
  case (step i)
  have lst: "[i..<n] = i # [Suc i..<n]" using step.hyps by (simp add: upt_conv_Cons)
  from fails step.hyps obtain e where e: "attempt_result net url params cl i = Inl e"
    by (metis isl_def Suc_lessD)
  have lt: "int i < max_retries (config cl) - 1" using step.hyps n by linarith
  have "attempt_loop net url params (map int [i..<n]) prev (state_at cl i)
          = attempt_loop net url params (map int [Suc i..<n]) (Some e) (state_at cl (Suc i))"
    using e lt unfolding lst
    by (simp add: attempt_result_def Let_def config_state_at sent_refresh_state_at)
  then show ?case using step.IH[of "Some e"] by simp
qed

lemma raise_after_loop_Some:
  "raise_after_loop (Some e) =
     (case e of GMGNAPIError status msg \<Rightarrow> GMGNAPIError status msg
              | OtherException msg \<Rightarrow> GMGNAPIError 500 (''Request failed: '' @ msg))"
  by (cases e) simp_all

text \<open>
  Claim C4, as amended. \<^verbatim>\<open>make_request\<close> sends the request at most \<^verbatim>\<open>max_retries\<close> times (not
  at all when \<^verbatim>\<open>max_retries\<close> is zero or negative) and returns the JSON of the first attempt
  that succeeds, having called \<^verbatim>\<open>refresh_session\<close> after each failed attempt before it. When
  all \<^verbatim>\<open>max_retries\<close> attempts fail it has called \<^verbatim>\<open>refresh_session\<close> after each of them but
  the last, and it raises the error of the last attempt when that is a \<^verbatim>\<open>GMGNAPIError\<close>, and
  otherwise a \<^verbatim>\<open>GMGNAPIError\<close> with status 500 whose message is "Request failed: " followed
  by the text of that error; with no attempt made the message is "Request failed: None".
\<close>

theorem make_request_retry:
  "case make_request net url params cl of
     (Inr v, cl') \<Rightarrow>
       (\<exists>k < nat (max_retries (config cl)).
          (\<forall>j < k. isl (attempt_result net url params cl j))
          \<and> attempt_result net url params cl k = Inr v
          \<and> requests_sent cl' = requests_sent cl + k + 1
          \<and> session_generation cl' = session_generation cl + k)
   | (Inl e, cl') \<Rightarrow>
       (\<forall>j < nat (max_retries (config cl)). isl (attempt_result net url params cl j))
       \<and> requests_sent cl' = requests_sent cl + nat (max_retries (config cl))
       \<and> session_generation cl' = session_generation cl + (nat (max_retries (config cl)) - 1)
       \<and> (max_retries (config cl) \<le> 0 \<and> e = GMGNAPIError 500 ''Request failed: None''
          \<or> 0 < max_retries (config cl)
            \<and> (\<exists>err. attempt_result net url params cl (nat (max_retries (config cl)) - 1) = Inl err
                 \<and> e = (case err of
                          GMGNAPIError status msg \<Rightarrow> GMGNAPIError status msg
                        | OtherException msg \<Rightarrow> GMGNAPIError 500 (''Request failed: '' @ msg))))"
proof -
  define n where "n = nat (max_retries (config cl))"
  let ?T = "attempt_result net url params cl"
  show ?thesis
  proof (cases "\<exists>k. k < n \<and> \<not> isl (?T k)")
    case True
    then obtain k where k: "k < n" "\<not> isl (?T k)" and least: "\<forall>j<k. \<not> (j < n \<and> \<not> isl (?T j))"
      using exists_least_iff[of "\<lambda>k. k < n \<and> \<not> isl (?T k)"] by blast
    from k(2) obtain v where v: "?T k = Inr v" by (cases "?T k") simp_all
    have fails: "\<forall>j. 0 \<le> j \<and> j < k \<longrightarrow> isl (?T j)" using least k(1) by auto
    have "attempt_loop net url params (map int [0..<n]) None (state_at cl 0)
            = (Inr v, (state_at cl k)\<lparr>requests_sent := Suc (requests_sent cl + k)\<rparr>)"
      using loop_success[OF n_def k(1) v fails] by simp
    then have "make_request net url params cl
            = (Inr v, (state_at cl k)\<lparr>requests_sent := Suc (requests_sent cl + k)\<rparr>)"
      by (simp add: make_request_def py_range_def n_def state_at_0)
    then show ?thesis using k(1) v fails
      by (auto simp: state_at_def n_def)
  next
    case False
    then have fails: "\<forall>j. j < n \<longrightarrow> isl (?T j)" by blast
    show ?thesis
    proof (cases "n = 0")
      case True
      then have "make_request net url params cl
                   = (Inl (GMGNAPIError 500 ''Request failed: None''), cl)"
        by (simp add: make_request_def py_range_def n_def)
      then show ?thesis using True by (simp add: n_def)
    next
      case False
      then have pos: "0 < n" by simp
      from loop_fail[OF n_def fails pos, of None] obtain e where
        e: "?T (n - 1) = Inl e"
        and loop: "attempt_loop net url params (map int [0..<n]) None (state_at cl 0)
                    = (Inl (Some e), (state_at cl (n - 1))\<lparr>requests_sent := requests_sent cl + n\<rparr>)"
        by blast
      from loop have "make_request net url params cl
          = (Inl (raise_after_loop (Some e)),
             (state_at cl (n - 1))\<lparr>requests_sent := requests_sent cl + n\<rparr>)"
        by (simp add: make_request_def py_range_def n_def state_at_0)
      then show ?thesis using fails e pos
        by (simp add: state_at_def n_def raise_after_loop_Some)
    qed
  qed
qed

theorem make_request_retry_witness:
  "make_request always_blocked ''https://gmgn.ai/defi/quotation/v1/rank/sol/swaps/1h'' []
     (new_client create_default)
   = (Inl (GMGNAPIError 503 ''Cloudflare block detected''),
      \<lparr> config = create_default, session_generation = 2, requests_sent = 3 \<rparr>)"
  using make_request_retry[where net = always_blocked
      and url = "''https://gmgn.ai/defi/quotation/v1/rank/sol/swaps/1h''" and params = "[]"
      and cl = "new_client create_default"]
  by (simp add: make_request_def py_range_def new_client_def create_default_def
      always_blocked_def try_request_def refresh_session_def upt_rec)

text \<open>
  One attempt whose transport times out: the error that occurred is the transport's, the
  error raised is a \<^verbatim>\<open>GMGNAPIError\<close> with status 500 that quotes it.
\<close>

theorem make_request_wraps_counterexample:
  "attempt_result always_timeout ''u'' [] (new_client (create_default\<lparr>max_retries := 1\<rparr>)) 0
     = Inl (OtherException ''timed out'')
   \<and> fst (make_request always_timeout ''u'' [] (new_client (create_default\<lparr>max_retries := 1\<rparr>)))
     = Inl (GMGNAPIError 500 ''Request failed: timed out'')
   \<and> fst (make_request always_timeout ''u'' [] (new_client (create_default\<lparr>max_retries := 1\<rparr>)))
     \<noteq> Inl (OtherException ''timed out'')"
  by (simp add: make_request_def py_range_def new_client_def create_default_def
      always_timeout_def try_request_def refresh_session_def attempt_result_def state_at_def)

section \<open>The API class\<close>

text \<open>
  Claim C8. For every chain and time period \<^verbatim>\<open>get_top_gainers\<close> raises a NameError for the
  name \<^verbatim>\<open>limit\<close>; the client is left as it was, so no request has been made, and no token
  list is returned.
\<close>

theorem get_top_gainers_name_error:
  "get_top_gainers net sf si chain tp cl = (Inl (NameError ''limit''), cl)"
  by (simp add: get_top_gainers_def module_globals_def)

section \<open>The risk score\<close>

lemma clamp_unit: "\<exists>x. py_max (Fin 0) (py_min (Fin 1) s) = Fin x \<and> 0 \<le> x \<and> x \<le> 1"
  by (cases s) (auto simp: py_max_def py_min_def)

lemma risk_count_unit: "\<exists>x. py_min (Fin 1) (Fin (real n / 10)) = Fin x \<and> 0 \<le> x \<and> x \<le> 1"
proof (cases "real n / 10 < 1")
  case True
  then have "py_min (Fin 1) (Fin (real n / 10)) = Fin (real n / 10)" by (simp add: py_min_def)
  moreover have "0 \<le> real n / 10" by simp
  ultimately show ?thesis using True by (intro exI[of _ "real n / 10"]) simp
next
  case False
  then have "py_min (Fin 1) (Fin (real n / 10)) = Fin 1" by (simp add: py_min_def)
  then show ?thesis by simp
qed

lemma risk_score_body_range:
  "risk_score_body sf d = Inr r \<Longrightarrow> \<exists>x. r = Fin x \<and> 0 \<le> x \<and> x \<le> 1"
  unfolding risk_score_body_def bind_res_def Let_def
  using clamp_unit risk_count_unit
  by (auto split: if_splits sum.splits option.splits pyval.splits)

text \<open>
  Whatever \<^verbatim>\<open>_extract_risk_score\<close> returns lies between 0.0 and 1.0, and the only exception
  that leaves it is an OverflowError.
\<close>

lemma extract_risk_score_range:
  "extract_risk_score sf d = Inr r \<Longrightarrow> \<exists>x. r = Fin x \<and> 0 \<le> x \<and> x \<le> 1"
  unfolding extract_risk_score_def
  using risk_score_body_range[of sf d]
  by (auto split: sum.splits py_error.splits)

lemma extract_risk_score_raises:
  "extract_risk_score sf d = Inl e \<Longrightarrow> e = OverflowError"
  unfolding extract_risk_score_def
  by (auto split: sum.splits py_error.splits)

text \<open>
  Claim C9. The claim is that \<^verbatim>\<open>_extract_risk_score\<close> returns a value between 0.0 and 1.0
  for every dictionary. A score that is an integer too large for a float makes
  \<^verbatim>\<open>float(...)\<close> raise an OverflowError, which the \<^verbatim>\<open>except (ValueError, TypeError)\<close> clause
  does not catch: no value is returned.
\<close>

theorem risk_score_overflow:
  "extract_risk_score sf [(''score_normalised'', PInt (2 ^ 1024))] = Inl OverflowError"
  by (simp add: extract_risk_score_def risk_score_body_def dict_get_def bind_res_def
      float_overflow_bound_def)

end
